theory Spec2Isabelle
  imports Main "HOL-Library.List_Lexorder" "HOL-Library.Char_ord"
begin

section \<open>Farmaci Giannina: the dashboard of src/App.tsx\<close>

text \<open>
  The program is a React component over a row store (tables \<open>meds\<close>, \<open>stocks\<close>,
  \<open>intake_logs\<close>). The embedding is explicit state passing: one record holds the three
  tables and the component's local state, and every handler of the component is a
  function from state to state. A request to the store is modelled as succeeding and as
  doing what the request says (insert appends, update-by-filter rewrites the matching
  rows, delete-by-filter removes them); the store enforces no constraint of its own, so
  the constraints a property needs (a primary key, the uniqueness of the intake key) are
  hypotheses of the theorem that needs them.

  Numbers: the quantities of the program are JavaScript numbers that hold integers; they
  are modelled as \<open>int\<close>, exact below \<open>2^53\<close>. Where the source guards against a
  value that is not a number (\<open>x || 0\<close>, \<open>!qty\<close>, \<open>Number.isNaN\<close>) the value is a
  \<open>number\<close> (an integer or NaN) when it is an argument, and an \<open>int option\<close> (an integer
  or null) when it is read from a row. Fractions are outside the model.
\<close>

subsection \<open>Dates (lines 24-26)\<close>

text \<open>
  A \<open>Date\<close> is its time value, the milliseconds since the epoch in UTC. The getters and
  setters \<open>getDay\<close>, \<open>getDate\<close>, \<open>setDate\<close> work on local time, \<open>toISOString\<close> and
  the parser of a date-only string work in UTC. The offset of local time is the
  function \<open>LocalTZA\<close> of the language definition, a parameter of the clock:
  \<open>LocalTZA t True\<close> is the offset in force at the UTC time value \<open>t\<close>, and
  \<open>LocalTZA t False\<close> the offset under which the local time value \<open>t\<close> is read, so a
  daylight-saving switch is a change of its value. The string \<open>YYYY-MM-DD\<close> that
  \<open>toISOString().slice(0, 10)\<close> gives is modelled by the number of its UTC day, counted
  from 1970-01-01.
\<close>

type_synonym iso = int

record clock =
  now :: int
  LocalTZA :: "int \<Rightarrow> bool \<Rightarrow> int"

definition msPerDay :: int where
  "msPerDay = 86400000"

definition Day :: "int \<Rightarrow> int" where
  "Day t = t div msPerDay"

definition TimeWithinDay :: "int \<Rightarrow> int" where
  "TimeWithinDay t = t mod msPerDay"

definition WeekDay :: "int \<Rightarrow> int" where
  "WeekDay t = (Day t + 4) mod 7"

definition LocalTime :: "clock \<Rightarrow> int \<Rightarrow> int" where
  "LocalTime c t = t + LocalTZA c t True"

definition UTC :: "clock \<Rightarrow> int \<Rightarrow> int" where
  "UTC c t = t - LocalTZA c t False"

definition getDay :: "clock \<Rightarrow> int \<Rightarrow> int" where
  "getDay c d = WeekDay (LocalTime c d)"

text \<open>\<open>d.setDate(d.getDate() + n)\<close>: the local day moves by \<open>n\<close>, the local time of day stays.\<close>

definition setDate_plus :: "clock \<Rightarrow> int \<Rightarrow> int \<Rightarrow> int" where
  "setDate_plus c d n =
     UTC c ((Day (LocalTime c d) + n) * msPerDay + TimeWithinDay (LocalTime c d))"

definition toISODate :: "int \<Rightarrow> iso" where
  "toISODate d = Day d"

definition parseISODate :: "iso \<Rightarrow> int" where
  "parseISODate s = s * msPerDay"

text \<open>The day of the week of an ISO date, 0 for Sunday and 1 for Monday.\<close>

definition isoWeekDay :: "iso \<Rightarrow> int" where
  "isoWeekDay s = (s + 4) mod 7"

definition todayISO :: "clock \<Rightarrow> iso" where
  "todayISO c = toISODate (now c)"

definition startOfWeekISO :: "clock \<Rightarrow> iso" where
  "startOfWeekISO c =
     (let d = now c;
          day = (getDay c d + 6) mod 7
      in toISODate (setDate_plus c d (- day)))"

definition addDaysISO :: "clock \<Rightarrow> iso \<Rightarrow> int \<Rightarrow> iso" where
  "addDaysISO c s n = toISODate (setDate_plus c (parseISODate s) n)"

subsection \<open>Types (lines 10-16) and rows\<close>

type_synonym ident = string

datatype TimeSlot = Mattina | Mezzogiorno | Sera


datatype number = Num int | NaN

datatype location = Box | Dispensa

record Profile =
  p_id :: ident
  p_family_id :: "ident option"

record Med =
  m_id :: ident
  m_family_id :: "ident option"
  m_name :: string
  m_dosage :: "string option"
  m_per_dose :: int
  m_times :: "TimeSlot list"
  m_threshold :: int
  m_archived :: bool

record stock_row =
  st_id :: ident
  st_med_id :: ident
  st_location :: location
  st_qty :: "int option"

record intake_row =
  il_family_id :: "ident option"
  il_day :: iso
  il_time_slot :: TimeSlot
  il_med_id :: ident
  il_taken :: bool

record stock_entry =
  box :: int
  dispensa :: int

record Editing =
  e_id :: ident
  e_name :: string
  e_dosage :: "string option"
  e_per_dose :: int
  e_times :: "TimeSlot list"

record NewMed =
  n_name :: string
  n_dosage :: string
  n_per_dose :: int
  n_threshold :: int
  n_times :: "TimeSlot list"
  n_initBox :: number
  n_initDisp :: number

type_synonym intake_key = "iso \<times> TimeSlot \<times> ident"

text \<open>
  The key \<open>`${day}|${time}|${m.id}`\<close> of the local intake map is the triple: the first two
  parts hold no \<open>|\<close>, so the string determines the triple.
\<close>

record state =
  tbl_meds :: "Med list"
  tbl_stocks :: "stock_row list"
  tbl_intake_logs :: "intake_row list"
  weekStart :: iso
  onlyToday :: bool
  meds :: "Med list"
  stocks :: "ident \<rightharpoonup> stock_entry"
  intakes :: "intake_key \<rightharpoonup> bool"
  editing :: "Editing option"
  adding :: bool
  newMed :: NewMed

subsection \<open>JavaScript coercions and the store's requests\<close>

text \<open>\<open>x || 0\<close> on a value read from a row: null and 0 give 0.\<close>

definition or0 :: "int option \<Rightarrow> int" where
  "or0 x = (case x of None \<Rightarrow> 0 | Some v \<Rightarrow> v)"

text \<open>\<open>x || 0\<close> on a number: NaN and 0 give 0.\<close>

definition num_or0 :: "number \<Rightarrow> int" where
  "num_or0 x = (case x of NaN \<Rightarrow> 0 | Num v \<Rightarrow> v)"

text \<open>\<open>!!m[k]\<close> on a map of booleans: a missing key is falsy.\<close>

definition truthy :: "bool option \<Rightarrow> bool" where
  "truthy x = (case x of None \<Rightarrow> False | Some b \<Rightarrow> b)"

text \<open>\<open>!profile.family_id\<close>: null and the empty string are falsy.\<close>

definition family_of :: "Profile \<Rightarrow> ident option" where
  "family_of p = (case p_family_id p of None \<Rightarrow> None | Some f \<Rightarrow> if f = [] then None else Some f)"

text \<open>
  \<open>.eq(column, value)\<close> on a nullable column: as in SQL, null equals nothing, so a filter
  on a null value and a null column both match no row.
\<close>

definition eq_null :: "'a option \<Rightarrow> 'a option \<Rightarrow> bool" where
  "eq_null col v = (case v of None \<Rightarrow> False | Some x \<Rightarrow> col = Some x)"

text \<open>\<open>.single()\<close>: the row when exactly one row matches, no data otherwise.\<close>

definition single :: "'a list \<Rightarrow> 'a option" where
  "single rows = (case rows of [r] \<Rightarrow> Some r | _ \<Rightarrow> None)"

definition select_stock :: "state \<Rightarrow> ident \<Rightarrow> location \<Rightarrow> stock_row option" where
  "select_stock s mid loc =
     single [r \<leftarrow> tbl_stocks s. st_med_id r = mid \<and> st_location r = loc]"

text \<open>\<open>from("stocks").update({ qty }).eq("id", rid)\<close>\<close>

definition update_qty :: "ident \<Rightarrow> int \<Rightarrow> stock_row list \<Rightarrow> stock_row list" where
  "update_qty rid q rows = map (\<lambda>r. if st_id r = rid then r\<lparr>st_qty := Some q\<rparr> else r) rows"

text \<open>The conflict target of the upsert: \<open>family_id,day,time_slot,med_id\<close>.\<close>

definition same_key :: "intake_row \<Rightarrow> intake_row \<Rightarrow> bool" where
  "same_key new r =
     (eq_null (il_family_id r) (il_family_id new) \<and> il_day r = il_day new \<and>
      il_time_slot r = il_time_slot new \<and> il_med_id r = il_med_id new)"

definition upsert_intake :: "intake_row \<Rightarrow> intake_row list \<Rightarrow> intake_row list" where
  "upsert_intake new rows =
     (if filter (same_key new) rows = [] then rows @ [new]
      else map (\<lambda>r. if same_key new r then new else r) rows)"

subsection \<open>The displayed days (lines 108-109)\<close>

definition allDays :: "clock \<Rightarrow> state \<Rightarrow> iso list" where
  "allDays c s = map (\<lambda>i. addDaysISO c (weekStart s) (int i)) [0..<7]"

definition days :: "clock \<Rightarrow> state \<Rightarrow> iso list" where
  "days c s = (if onlyToday s then filter (\<lambda>d. d = todayISO c) (allDays c s) else allDays c s)"

subsection \<open>Loading (lines 201-237)\<close>

definition stock_step :: "(ident \<rightharpoonup> stock_entry) \<Rightarrow> stock_row \<Rightarrow> (ident \<rightharpoonup> stock_entry)" where
  "stock_step mp r =
     (let e = (case mp (st_med_id r) of None \<Rightarrow> \<lparr>box = 0, dispensa = 0\<rparr> | Some e \<Rightarrow> e)
      in mp(st_med_id r \<mapsto>
            (case st_location r of
               Box \<Rightarrow> e\<lparr>box := or0 (st_qty r)\<rparr>
             | Dispensa \<Rightarrow> e\<lparr>dispensa := or0 (st_qty r)\<rparr>)))"

definition loadMeds :: "Profile \<Rightarrow> state \<Rightarrow> state" where
  "loadMeds p s =
     (case family_of p of
        None \<Rightarrow> s
      | Some f \<Rightarrow>
          (let medsNow = sort_key m_name
                 [m \<leftarrow> tbl_meds s. m_family_id m = Some f \<and> m_archived m = False]
           in if length medsNow > 0
              then (let ids = map m_id medsNow;
                        st = [r \<leftarrow> tbl_stocks s. st_med_id r \<in> set ids]
                    in s\<lparr>meds := medsNow, stocks := foldl stock_step Map.empty st\<rparr>)
              else s\<lparr>meds := medsNow, stocks := Map.empty\<rparr>))"



subsection \<open>The intake tracker (lines 246-316)\<close>

definition intake_matches :: "Profile \<Rightarrow> iso \<Rightarrow> TimeSlot \<Rightarrow> ident \<Rightarrow> intake_row \<Rightarrow> bool" where
  "intake_matches p day time mid r =
     (eq_null (il_family_id r) (p_family_id p) \<and> il_day r = day \<and>
      il_time_slot r = time \<and> il_med_id r = mid)"

definition toggleTaken ::
  "Profile \<Rightarrow> iso \<Rightarrow> TimeSlot \<Rightarrow> Med \<Rightarrow> bool option \<Rightarrow> state \<Rightarrow> state" where
  "toggleTaken p day time m force s =
     (let k = (day, time, m_id m);
          next = (case force of Some b \<Rightarrow> b | None \<Rightarrow> \<not> truthy (intakes s k));
          s1 = s\<lparr>intakes := (intakes s)(k \<mapsto> next)\<rparr>;
          s2 = (if next
                then s1\<lparr>tbl_intake_logs :=
                        upsert_intake
                          \<lparr>il_family_id = p_family_id p, il_day = day, il_time_slot = time,
                           il_med_id = m_id m, il_taken = True\<rparr>
                          (tbl_intake_logs s1)\<rparr>
                else s1\<lparr>tbl_intake_logs :=
                        [r \<leftarrow> tbl_intake_logs s1. \<not> intake_matches p day time (m_id m) r]\<rparr>)
      in case select_stock s2 (m_id m) Box of
           None \<Rightarrow> s2
         | Some b \<Rightarrow>
             (let newQty = max 0 (or0 (st_qty b) + (if next then - m_per_dose m else m_per_dose m))
              in s2\<lparr>tbl_stocks := update_qty (st_id b) newQty (tbl_stocks s2),
                     stocks := (stocks s2)(m_id m \<mapsto>
                       (case stocks s2 (m_id m) of
                          None \<Rightarrow> \<lparr>box = 0, dispensa = 0\<rparr>
                        | Some e \<Rightarrow> e)\<lparr>box := newQty\<rparr>)\<rparr>))"



text \<open>
  The bulk operation starts every issued toggle and awaits them all. A toggle is four
  steps, each behind an \<open>await\<close>: the request that writes the log, the select of the
  Box row, the update of that row with the quantity computed from the row read, and
  the local \<open>setStocks\<close>. The part of \<open>toggleTaken\<close> before its first \<open>await\<close> (the
  local \<open>setIntakes\<close>) runs when the toggle is started. Between two steps of one toggle
  the steps of the others may run, in any order: the order is the schedule, a list of
  task indices that is a parameter of the bulk operation. A schedule that leaves a
  toggle unsettled is one under which \<open>Promise.all\<close> has not resolved: the bulk
  operation has no result then.
\<close>

datatype phase = WriteLog | SelectBox | UpdateBox ident int | SetStocks int | Settled

type_synonym task = "(Med \<times> TimeSlot) \<times> phase"

definition toggle_begin :: "iso \<Rightarrow> bool \<Rightarrow> state \<Rightarrow> Med \<times> TimeSlot \<Rightarrow> state" where
  "toggle_begin day next s j = s\<lparr>intakes := (intakes s)((day, snd j, m_id (fst j)) \<mapsto> next)\<rparr>"

fun phase_step ::
  "Profile \<Rightarrow> iso \<Rightarrow> bool \<Rightarrow> Med \<Rightarrow> TimeSlot \<Rightarrow> phase \<Rightarrow> state \<Rightarrow> phase \<times> state" where
  "phase_step p day next m time WriteLog s =
     (SelectBox,
      if next
      then s\<lparr>tbl_intake_logs :=
              upsert_intake
                \<lparr>il_family_id = p_family_id p, il_day = day, il_time_slot = time,
                 il_med_id = m_id m, il_taken = True\<rparr>
                (tbl_intake_logs s)\<rparr>
      else s\<lparr>tbl_intake_logs :=
              [r \<leftarrow> tbl_intake_logs s. \<not> intake_matches p day time (m_id m) r]\<rparr>)"
| "phase_step p day next m time SelectBox s =
     (case select_stock s (m_id m) Box of
        None \<Rightarrow> (Settled, s)
      | Some b \<Rightarrow>
          (UpdateBox (st_id b)
             (max 0 (or0 (st_qty b) + (if next then - m_per_dose m else m_per_dose m))), s))"
| "phase_step p day next m time (UpdateBox rid newQty) s =
     (SetStocks newQty, s\<lparr>tbl_stocks := update_qty rid newQty (tbl_stocks s)\<rparr>)"
| "phase_step p day next m time (SetStocks newQty) s =
     (Settled,
      s\<lparr>stocks := (stocks s)(m_id m \<mapsto>
          (case stocks s (m_id m) of
             None \<Rightarrow> \<lparr>box = 0, dispensa = 0\<rparr>
           | Some e \<Rightarrow> e)\<lparr>box := newQty\<rparr>)\<rparr>)"
| "phase_step p day next m time Settled s = (Settled, s)"

definition task_step :: "Profile \<Rightarrow> iso \<Rightarrow> bool \<Rightarrow> task \<Rightarrow> state \<Rightarrow> task \<times> state" where
  "task_step p day next t s =
     (case phase_step p day next (fst (fst t)) (snd (fst t)) (snd t) s of
        (ph, s') \<Rightarrow> ((fst t, ph), s'))"

definition sched_step ::
  "Profile \<Rightarrow> iso \<Rightarrow> bool \<Rightarrow> task list \<times> state \<Rightarrow> nat \<Rightarrow> task list \<times> state" where
  "sched_step p day next cfg i =
     (if i < length (fst cfg)
      then (case task_step p day next (fst cfg ! i) (snd cfg) of
              (t, s') \<Rightarrow> ((fst cfg)[i := t], s'))
      else cfg)"

definition run_schedule ::
  "Profile \<Rightarrow> iso \<Rightarrow> bool \<Rightarrow> nat list \<Rightarrow> task list \<times> state \<Rightarrow> task list \<times> state" where
  "run_schedule p day next sched cfg = foldl (sched_step p day next) cfg sched"








subsection \<open>The inventory ledger (lines 319-364)\<close>

definition moveFromPantry :: "Med \<Rightarrow> number \<Rightarrow> state \<Rightarrow> state" where
  "moveFromPantry m qty s =
     (case qty of
        NaN \<Rightarrow> s
      | Num n \<Rightarrow>
          if n = 0 \<or> n \<le> 0 then s
          else (case (select_stock s (m_id m) Box, select_stock s (m_id m) Dispensa) of
                  (Some b, Some pan) \<Rightarrow>
                    (let newBox = or0 (st_qty b) + n;
                         newPan = max 0 (or0 (st_qty pan) - n)
                     in s\<lparr>tbl_stocks :=
                            update_qty (st_id pan) newPan (update_qty (st_id b) newBox (tbl_stocks s)),
                          stocks := (stocks s)(m_id m \<mapsto> \<lparr>box = newBox, dispensa = newPan\<rparr>)\<rparr>)
                | _ \<Rightarrow> s))"

definition addPantry :: "Med \<Rightarrow> number \<Rightarrow> state \<Rightarrow> state" where
  "addPantry m qty s =
     (case qty of
        NaN \<Rightarrow> s
      | Num n \<Rightarrow>
          if n = 0 \<or> n \<le> 0 then s
          else (case select_stock s (m_id m) Dispensa of
                  Some pan \<Rightarrow>
                    (let newPan = or0 (st_qty pan) + n
                     in s\<lparr>tbl_stocks := update_qty (st_id pan) newPan (tbl_stocks s),
                          stocks := (stocks s)(m_id m \<mapsto>
                            (case stocks s (m_id m) of
                               None \<Rightarrow> \<lparr>box = 0, dispensa = 0\<rparr>
                             | Some e \<Rightarrow> e)\<lparr>dispensa := newPan\<rparr>)\<rparr>)
                | None \<Rightarrow> s))"

definition setBoxQty :: "Med \<Rightarrow> number \<Rightarrow> state \<Rightarrow> state" where
  "setBoxQty m qty s =
     (case qty of
        NaN \<Rightarrow> s
      | Num n \<Rightarrow>
          if n < 0 then s
          else (case select_stock s (m_id m) Box of
                  Some b \<Rightarrow>
                    s\<lparr>tbl_stocks := update_qty (st_id b) n (tbl_stocks s),
                      stocks := (stocks s)(m_id m \<mapsto>
                        (case stocks s (m_id m) of
                           None \<Rightarrow> \<lparr>box = 0, dispensa = 0\<rparr>
                         | Some e \<Rightarrow> e)\<lparr>box := n\<rparr>)\<rparr>
                | None \<Rightarrow> s))"

definition setPantryQty :: "Med \<Rightarrow> number \<Rightarrow> state \<Rightarrow> state" where
  "setPantryQty m qty s =
     (case qty of
        NaN \<Rightarrow> s
      | Num n \<Rightarrow>
          if n < 0 then s
          else (case select_stock s (m_id m) Dispensa of
                  Some pan \<Rightarrow>
                    s\<lparr>tbl_stocks := update_qty (st_id pan) n (tbl_stocks s),
                      stocks := (stocks s)(m_id m \<mapsto>
                        (case stocks s (m_id m) of
                           None \<Rightarrow> \<lparr>box = 0, dispensa = 0\<rparr>
                         | Some e \<Rightarrow> e)\<lparr>dispensa := n\<rparr>)\<rparr>
                | None \<Rightarrow> s))"

definition weeklyNeed :: "Med \<Rightarrow> int" where
  "weeklyNeed m = m_per_dose m * int (length (m_times m)) * 7"

definition totalStock :: "state \<Rightarrow> Med \<Rightarrow> int" where
  "totalStock s m =
     (case stocks s (m_id m) of None \<Rightarrow> 0 | Some e \<Rightarrow> box e) +
     (case stocks s (m_id m) of None \<Rightarrow> 0 | Some e \<Rightarrow> dispensa e)"

definition statusText :: "state \<Rightarrow> Med \<Rightarrow> string" where
  "statusText s m =
     (if totalStock s m < m_threshold m then ''Sotto soglia''
      else if totalStock s m < weeklyNeed m then ''Copertura < 1 settimana''
      else ''OK'')"

datatype Tone = green | amber | red

definition startsWith :: "string \<Rightarrow> string \<Rightarrow> bool" where
  "startsWith s pre = (take (length pre) s = pre)"

definition statusTone :: "string \<Rightarrow> Tone" where
  "statusTone s =
     (if s = ''OK'' then green
      else if startsWith s ''Copertura'' then amber
      else red)"

subsection \<open>The medication catalog (lines 120-184)\<close>

definition saveMed :: "Profile \<Rightarrow> state \<Rightarrow> state" where
  "saveMed p s =
     (case editing s of
        None \<Rightarrow> s
      | Some e \<Rightarrow>
          loadMeds p
            (s\<lparr>tbl_meds :=
                 map (\<lambda>r. if m_id r = e_id e
                           then r\<lparr>m_name := e_name e, m_dosage := e_dosage e,
                                  m_per_dose := e_per_dose e, m_times := e_times e\<rparr>
                           else r) (tbl_meds s),
               editing := None\<rparr>))"

definition emptyNewMed :: NewMed where
  "emptyNewMed =
     \<lparr>n_name = [], n_dosage = [], n_per_dose = 1, n_threshold = 10, n_times = [],
      n_initBox = Num 0, n_initDisp = Num 0\<rparr>"

text \<open>
  \<open>addMed\<close>: the identifiers the store generates for the new rows are parameters. The
  validation alert is the error value; the state is untouched on that branch.
\<close>

definition addMed :: "Profile \<Rightarrow> ident \<Rightarrow> ident \<Rightarrow> ident \<Rightarrow> state \<Rightarrow> string + state" where
  "addMed p medId boxRowId dispRowId s =
     (let nm = newMed s
      in if n_name nm = [] \<or> length (n_times nm) = 0
         then Inl ''Inserisci almeno il nome e una fascia oraria.''
         else Inr (loadMeds p
           (s\<lparr>tbl_meds := tbl_meds s @
                  [\<lparr>m_id = medId, m_family_id = p_family_id p, m_name = n_name nm,
                    m_dosage = (if n_dosage nm = [] then None else Some (n_dosage nm)),
                    m_per_dose = n_per_dose nm, m_times = n_times nm,
                    m_threshold = n_threshold nm, m_archived = False\<rparr>],
                tbl_stocks := tbl_stocks s @
                  [\<lparr>st_id = boxRowId, st_med_id = medId, st_location = Box,
                    st_qty = Some (num_or0 (n_initBox nm))\<rparr>,
                   \<lparr>st_id = dispRowId, st_med_id = medId, st_location = Dispensa,
                    st_qty = Some (num_or0 (n_initDisp nm))\<rparr>],
                adding := False,
                newMed := emptyNewMed\<rparr>)))"

definition archiveMed :: "Profile \<Rightarrow> Med \<Rightarrow> state \<Rightarrow> state" where
  "archiveMed p m s =
     loadMeds p
       (s\<lparr>tbl_meds := map (\<lambda>r. if m_id r = m_id m then r\<lparr>m_archived := True\<rparr> else r) (tbl_meds s),
          tbl_stocks := [r \<leftarrow> tbl_stocks s. st_med_id r \<noteq> m_id m]\<rparr>)"

definition hardDeleteMed :: "Profile \<Rightarrow> Med \<Rightarrow> state \<Rightarrow> state" where
  "hardDeleteMed p m s =
     loadMeds p
       (s\<lparr>tbl_intake_logs :=
            [r \<leftarrow> tbl_intake_logs s.
               \<not> (il_med_id r = m_id m \<and> eq_null (il_family_id r) (p_family_id p))],
          tbl_stocks := [r \<leftarrow> tbl_stocks s. st_med_id r \<noteq> m_id m],
          tbl_meds := [r \<leftarrow> tbl_meds s. m_id r \<noteq> m_id m]\<rparr>)"

subsection \<open>The stock invariant of the data model\<close>

text \<open>No stock row holds a negative quantity; a null quantity reads as 0, as the source reads it.\<close>

definition stocks_nonneg :: "state \<Rightarrow> bool" where
  "stocks_nonneg s = list_all (\<lambda>r. 0 \<le> or0 (st_qty r)) (tbl_stocks s)"

subsection \<open>Example data for the concrete instances\<close>

text \<open>
  The local time of Rome in 2024: one hour ahead of UTC, two hours from 2024-03-31
  01:00 UTC to 2024-10-27 01:00 UTC. A local time value that the switch skips or
  repeats is read with the offset in force before the switch.
\<close>

definition rome2024 :: "int \<Rightarrow> bool \<Rightarrow> int" where
  "rome2024 t isUTC =
     (if isUTC
      then (if 1711846800000 \<le> t \<and> t < 1729990800000 then 7200000 else 3600000)
      else (if 1711846800000 + 7200000 \<le> t \<and> t < 1729990800000 + 7200000
            then 7200000 else 3600000))"

text \<open>
  Wednesday 2024-01-10 (day 19732), noon UTC, in a browser in Rome. The family has two
  medications with three planned doses a day, of which the morning dose of the first is
  logged as taken.
\<close>

definition ex_clock :: clock where
  "ex_clock = \<lparr>now = 1704888000000, LocalTZA = rome2024\<rparr>"

text \<open>Sunday 2024-01-07 (day 19729), 23:30 UTC: Monday 00:30 on the local clock.\<close>

definition ex_clock_night :: clock where
  "ex_clock_night = \<lparr>now = 1704670200000, LocalTZA = rome2024\<rparr>"

definition ex_profile :: Profile where
  "ex_profile = \<lparr>p_id = ''u1'', p_family_id = Some ''f1''\<rparr>"

definition ex_medA :: Med where
  "ex_medA = \<lparr>m_id = ''a'', m_family_id = Some ''f1'', m_name = ''Aspirina'',
     m_dosage = Some ''100mg'', m_per_dose = 1, m_times = [Mattina, Sera],
     m_threshold = 10, m_archived = False\<rparr>"

definition ex_medB :: Med where
  "ex_medB = \<lparr>m_id = ''b'', m_family_id = Some ''f1'', m_name = ''Bisoprololo'',
     m_dosage = None, m_per_dose = 2, m_times = [Mezzogiorno],
     m_threshold = 5, m_archived = False\<rparr>"

definition ex_state :: state where
  "ex_state =
     \<lparr>tbl_meds = [ex_medA, ex_medB],
      tbl_stocks =
        [\<lparr>st_id = ''s1'', st_med_id = ''a'', st_location = Box, st_qty = Some 1\<rparr>,
         \<lparr>st_id = ''s2'', st_med_id = ''a'', st_location = Dispensa, st_qty = Some 3\<rparr>,
         \<lparr>st_id = ''s3'', st_med_id = ''b'', st_location = Box, st_qty = Some 20\<rparr>,
         \<lparr>st_id = ''s4'', st_med_id = ''b'', st_location = Dispensa, st_qty = None\<rparr>],
      tbl_intake_logs =
        [\<lparr>il_family_id = Some ''f1'', il_day = 19732, il_time_slot = Mattina,
          il_med_id = ''a'', il_taken = True\<rparr>],
      weekStart = 19730,
      onlyToday = True,
      meds = [ex_medA, ex_medB],
      stocks = [''a'' \<mapsto> \<lparr>box = 1, dispensa = 3\<rparr>, ''b'' \<mapsto> \<lparr>box = 20, dispensa = 0\<rparr>],
      intakes = [(19732, Mattina, ''a'') \<mapsto> True],
      editing = None,
      adding = False,
      newMed = emptyNewMed\<rparr>"

text \<open>The example state with the first medication's local stock entry set.\<close>

definition ex_stocked :: "int \<Rightarrow> int \<Rightarrow> state" where
  "ex_stocked b d = ex_state\<lparr>stocks := [''a'' \<mapsto> \<lparr>box = b, dispensa = d\<rparr>]\<rparr>"

text \<open>The example state with the form for a new medication filled in, the Box quantity negative.\<close>

definition ex_adding :: state where
  "ex_adding = ex_state\<lparr>adding := True,
     newMed := \<lparr>n_name = ''Cardio'', n_dosage = [], n_per_dose = 1, n_threshold = 10,
                n_times = [Mattina], n_initBox = Num (- 5), n_initDisp = Num 0\<rparr>\<rparr>"


lemmas ex_defs = ex_clock_def ex_profile_def ex_medA_def ex_medB_def ex_state_def

section \<open>Dates\<close>

text \<open>
  The lemmas of this section that compute with days hold for a clock whose offset is one
  constant \<open>z\<close>, that is, with no daylight-saving switch.
\<close>

lemma setDate_plus_eq:
  assumes "\<And>t u. LocalTZA c t u = z"
  shows "setDate_plus c d n = d + n * msPerDay"
  by (simp add: setDate_plus_def UTC_def LocalTime_def Day_def TimeWithinDay_def assms
      algebra_simps)

lemma Day_shift: "Day (t + n * msPerDay) = Day t + n"
  by (simp add: Day_def msPerDay_def)

lemma addDaysISO_eq:
  assumes "\<And>t u. LocalTZA c t u = z"
  shows "addDaysISO c s n = s + n"
  using Day_shift [of "s * msPerDay" n]
  by (simp add: addDaysISO_def toISODate_def parseISODate_def setDate_plus_eq [OF assms]
      Day_def msPerDay_def)

lemma startOfWeekISO_eq:
  assumes "\<And>t u. LocalTZA c t u = z"
  shows "startOfWeekISO c = Day (now c) - (getDay c (now c) + 6) mod 7"
  using Day_shift [of "now c" "- ((getDay c (now c) + 6) mod 7)"]
  by (simp add: startOfWeekISO_def Let_def toISODate_def setDate_plus_eq [OF assms])

text \<open>
  With a constant offset, the window of seven days anchored at the week start holds the
  UTC date of the clock, which is the date \<open>todayISO\<close> gives.
\<close>

lemma week_contains_utc_today:
  assumes "\<And>t u. LocalTZA c t u = z"
  shows "startOfWeekISO c \<le> todayISO c \<and> todayISO c \<le> addDaysISO c (startOfWeekISO c) 6"
proof -
  have "0 \<le> (getDay c (now c) + 6) mod 7" "(getDay c (now c) + 6) mod 7 < 7" by simp_all
  then show ?thesis
    by (simp add: addDaysISO_eq [OF assms] startOfWeekISO_eq [OF assms] todayISO_def
        toISODate_def)
qed

text \<open>
  With a constant offset, where the local date and the UTC date of the clock agree (at
  any time of day when the offset is zero), the week start is a Monday.
\<close>

lemma startOfWeek_monday_same_day:
  assumes "\<And>t u. LocalTZA c t u = z"
    and "Day (LocalTime c (now c)) = Day (now c)"
  shows "isoWeekDay (startOfWeekISO c) = 1"
proof -
  define x where "x = Day (now c)"
  have "(x - ((x + 4) mod 7 + 6) mod 7 + 4) mod 7 = 1" by presburger
  then show ?thesis using assms(2)
    by (simp add: startOfWeekISO_eq [OF assms(1)] getDay_def WeekDay_def isoWeekDay_def x_def)
qed

lemma startOfWeek_monday_utc:
  assumes "\<And>t u. LocalTZA c t u = 0"
  shows "isoWeekDay (startOfWeekISO c) = 1"
  by (rule startOfWeek_monday_same_day [OF assms]) (simp add: LocalTime_def assms)

text \<open>
  Across a daylight-saving switch the day arithmetic of \<open>addDaysISO\<close> loses a day: in
  Rome, seven days after 2024-03-25 (day 19807) it gives 2024-03-31 (day 19813), since
  01:00 local time on April 1 is 23:00 UTC on March 31.
\<close>

lemma addDaysISO_across_switch:
  "addDaysISO ex_clock 19807 6 = 19813 \<and> addDaysISO ex_clock 19807 7 = 19813"
  by (simp add: addDaysISO_def toISODate_def parseISODate_def setDate_plus_def UTC_def
      LocalTime_def Day_def TimeWithinDay_def msPerDay_def rome2024_def ex_clock_def)

text \<open>
  C2. The week start is claimed to fall on a Monday for every reference date. At 00:30
  on a Monday of a clock one hour ahead of UTC, the local weekday is Monday, so nothing
  is subtracted, and the date is then read in UTC, where it is still Sunday: the week
  start returned is Sunday 2024-01-07.
\<close>

theorem startOfWeekISO_sunday_on_local_monday:
  "getDay ex_clock_night (now ex_clock_night) = 1 \<and>
   startOfWeekISO ex_clock_night = 19729 \<and>
   isoWeekDay (startOfWeekISO ex_clock_night) = 0"
proof -
  have n: "now ex_clock_night = 1704670200000"
    by (simp add: ex_clock_night_def)
  have l: "LocalTime ex_clock_night 1704670200000 = 1704673800000"
    by (simp add: LocalTime_def ex_clock_night_def rome2024_def)
  have g: "getDay ex_clock_night 1704670200000 = 1"
    by (simp add: getDay_def l WeekDay_def Day_def msPerDay_def)
  have u: "UTC ex_clock_night 1704673800000 = 1704670200000"
    by (simp add: UTC_def ex_clock_night_def rome2024_def)
  have d: "setDate_plus ex_clock_night 1704670200000 0 = 1704670200000"
    unfolding setDate_plus_def l by (simp add: Day_def TimeWithinDay_def msPerDay_def u)
  have w: "startOfWeekISO ex_clock_night = 19729"
    by (simp add: startOfWeekISO_def Let_def n g d toISODate_def Day_def msPerDay_def)
  show ?thesis
    by (simp add: n g w isoWeekDay_def)
qed

section \<open>The displayed days\<close>

lemma upt7: "[0..<7] = [0, 1, 2, 3, 4, 5, 6]"
  by code_simp

lemma allDays_eq:
  assumes "\<And>t u. LocalTZA c t u = z"
  shows "allDays c s = map (\<lambda>i. weekStart s + int i) [0..<7]"
  by (simp add: allDays_def addDaysISO_eq [OF assms])

text \<open>
  With a constant offset, in today-only mode the displayed days are today alone when the
  anchored week holds today, and none when it does not.
\<close>

lemma days_today_in_week:
  assumes "\<And>t u. LocalTZA c t u = z"
    and "onlyToday s" "weekStart s \<le> todayISO c" "todayISO c \<le> weekStart s + 6"
  shows "days c s = [todayISO c]"
proof -
  define k where "k = todayISO c - weekStart s"
  have "k = 0 \<or> k = 1 \<or> k = 2 \<or> k = 3 \<or> k = 4 \<or> k = 5 \<or> k = 6"
    using assms(3,4) unfolding k_def by arith
  moreover have "todayISO c = weekStart s + k" by (simp add: k_def)
  ultimately show ?thesis using assms(2)
    by (auto simp add: days_def allDays_eq [OF assms(1)] upt7)
qed

lemma days_today_outside_week:
  assumes "\<And>t u. LocalTZA c t u = z"
    and "onlyToday s" "todayISO c < weekStart s \<or> weekStart s + 6 < todayISO c"
  shows "days c s = []"
  using assms(2,3) by (auto simp add: days_def allDays_eq [OF assms(1)] upt7)

text \<open>
  C4. In today-only mode the displayed days are claimed to be today alone for every
  week-start anchor. With the anchor moved to the next week (Monday 2024-01-15, day
  19737) while today is 2024-01-10, no day is displayed.
\<close>

theorem days_onlyToday_empty_in_other_week:
  "onlyToday (ex_state\<lparr>weekStart := 19737\<rparr>) \<and> todayISO ex_clock = 19732 \<and>
   days ex_clock (ex_state\<lparr>weekStart := 19737\<rparr>) = []"
proof -
  have a: "addDaysISO ex_clock 19737 n = 19737 + n" if "0 \<le> n" "n \<le> 6" for n
  proof -
    have "n = 0 \<or> n = 1 \<or> n = 2 \<or> n = 3 \<or> n = 4 \<or> n = 5 \<or> n = 6"
      using that by arith
    then show ?thesis
      by (auto simp add: addDaysISO_def toISODate_def parseISODate_def setDate_plus_def UTC_def
          LocalTime_def Day_def TimeWithinDay_def msPerDay_def rome2024_def ex_clock_def)
  qed
  have t: "todayISO ex_clock = 19732"
    by (simp add: todayISO_def toISODate_def Day_def msPerDay_def ex_clock_def)
  have w: "weekStart (ex_state\<lparr>weekStart := 19737\<rparr>) = 19737"
    "onlyToday (ex_state\<lparr>weekStart := 19737\<rparr>)"
    by (simp_all add: ex_state_def)
  show ?thesis
    by (simp add: days_def allDays_def upt7 a t w)
qed

section \<open>Stock status\<close>

text \<open>
  C6. The weekly need is the pills per dose times the number of scheduled slots times
  seven, and the total stock is the Box plus the Dispensa quantity of the local stock
  entry (0 without an entry); the status text is "Sotto soglia" when the total stock is
  below the threshold, else "Copertura < 1 settimana" when it is below the weekly need,
  else "OK"; and the tone drawn from the text is red, amber and green in the same three
  cases.
\<close>

theorem status_derivation:
  "weeklyNeed m = m_per_dose m * int (length (m_times m)) * 7 \<and>
   totalStock s m = (case stocks s (m_id m) of None \<Rightarrow> 0 | Some e \<Rightarrow> box e + dispensa e) \<and>
   statusText s m =
     (if totalStock s m < m_threshold m then ''Sotto soglia''
      else if totalStock s m < weeklyNeed m then ''Copertura < 1 settimana''
      else ''OK'') \<and>
   statusTone (statusText s m) =
     (if totalStock s m < m_threshold m then red
      else if totalStock s m < weeklyNeed m then amber
      else green)"
  by (simp add: weeklyNeed_def totalStock_def statusText_def statusTone_def startsWith_def
      split: option.splits)

text \<open>Threshold 10, one pill per dose, two slots: totals 5, 12 and 20.\<close>

theorem status_derivation_witness:
  "m_threshold ex_medA = 10 \<and> m_per_dose ex_medA = 1 \<and> length (m_times ex_medA) = 2 \<and>
   weeklyNeed ex_medA = 14 \<and>
   totalStock (ex_stocked 2 3) ex_medA = 5 \<and>
   statusText (ex_stocked 2 3) ex_medA = ''Sotto soglia'' \<and>
   statusTone (statusText (ex_stocked 2 3) ex_medA) = red \<and>
   totalStock (ex_stocked 4 8) ex_medA = 12 \<and>
   statusText (ex_stocked 4 8) ex_medA = ''Copertura < 1 settimana'' \<and>
   statusTone (statusText (ex_stocked 4 8) ex_medA) = amber \<and>
   totalStock (ex_stocked 20 0) ex_medA = 20 \<and>
   statusText (ex_stocked 20 0) ex_medA = ''OK'' \<and>
   statusTone (statusText (ex_stocked 20 0) ex_medA) = green"
proof -
  have t: "totalStock (ex_stocked 2 3) ex_medA = 5" "totalStock (ex_stocked 4 8) ex_medA = 12"
    "totalStock (ex_stocked 20 0) ex_medA = 20"
    by (simp_all add: totalStock_def ex_stocked_def ex_defs)
  have m: "m_threshold ex_medA = 10" "m_per_dose ex_medA = 1" "length (m_times ex_medA) = 2"
    by (simp_all add: ex_defs)
  have w: "weeklyNeed ex_medA = 14"
    using status_derivation [of ex_medA "ex_stocked 2 3", THEN conjunct1] by (simp add: m)
  note d1 = status_derivation [of ex_medA "ex_stocked 2 3", THEN conjunct2, THEN conjunct2]
  note d2 = status_derivation [of ex_medA "ex_stocked 4 8", THEN conjunct2, THEN conjunct2]
  note d3 = status_derivation [of ex_medA "ex_stocked 20 0", THEN conjunct2, THEN conjunct2]
  have "statusText (ex_stocked 2 3) ex_medA = ''Sotto soglia''"
    "statusTone (statusText (ex_stocked 2 3) ex_medA) = red"
    using d1 [THEN conjunct1] d1 [THEN conjunct2] by (simp_all only: t m w, simp_all)
  moreover have "statusText (ex_stocked 4 8) ex_medA = ''Copertura < 1 settimana''"
    "statusTone (statusText (ex_stocked 4 8) ex_medA) = amber"
    using d2 [THEN conjunct1] d2 [THEN conjunct2] by (simp_all only: t m w, simp_all)
  moreover have "statusText (ex_stocked 20 0) ex_medA = ''OK''"
    "statusTone (statusText (ex_stocked 20 0) ex_medA) = green"
    using d3 [THEN conjunct1] d3 [THEN conjunct2] by (simp_all only: t m w, simp_all)
  ultimately show ?thesis using t m w by simp
qed

section \<open>The catalog\<close>

lemma loadMeds_tables:
  "tbl_meds (loadMeds p s) = tbl_meds s"
  "tbl_stocks (loadMeds p s) = tbl_stocks s"
  "tbl_intake_logs (loadMeds p s) = tbl_intake_logs s"
  by (simp_all add: loadMeds_def Let_def split: option.splits)

lemma filter_map_other:
  "(\<And>r. P (f r) = P r) \<Longrightarrow> (\<And>r. P r \<Longrightarrow> f r = r) \<Longrightarrow> filter P (map f xs) = filter P xs"
  by (induction xs) auto

text \<open>
  C10. Saving the editor leaves, in every medication row, the identifier, the family, the
  threshold and the archived flag as they were; it leaves every row other than the
  edited one as it was; and it leaves the stock rows and the intake log untouched.
\<close>

theorem saveMed_frame:
  "map (\<lambda>r. (m_id r, m_family_id r, m_threshold r, m_archived r)) (tbl_meds (saveMed p s)) =
     map (\<lambda>r. (m_id r, m_family_id r, m_threshold r, m_archived r)) (tbl_meds s) \<and>
   [r \<leftarrow> tbl_meds (saveMed p s). Some (m_id r) \<noteq> map_option e_id (editing s)] =
     [r \<leftarrow> tbl_meds s. Some (m_id r) \<noteq> map_option e_id (editing s)] \<and>
   tbl_stocks (saveMed p s) = tbl_stocks s \<and>
   tbl_intake_logs (saveMed p s) = tbl_intake_logs s"
  by (auto simp add: saveMed_def loadMeds_tables split: option.splits intro!: filter_map_other)

section \<open>The inventory ledger\<close>

lemma ex_select:
  "select_stock ex_state (m_id ex_medA) Box =
     Some \<lparr>st_id = ''s1'', st_med_id = ''a'', st_location = Box, st_qty = Some 1\<rparr>"
  "select_stock ex_state (m_id ex_medA) Dispensa =
     Some \<lparr>st_id = ''s2'', st_med_id = ''a'', st_location = Dispensa, st_qty = Some 3\<rparr>"
  by (simp_all add: select_stock_def single_def ex_defs)

lemma single_map: "single (map f xs) = map_option f (single xs)"
  by (simp add: single_def split: list.splits)

lemma filter_update_qty:
  "[r \<leftarrow> update_qty rid q rows. st_med_id r = mid \<and> st_location r = loc] =
   update_qty rid q [r \<leftarrow> rows. st_med_id r = mid \<and> st_location r = loc]"
  by (induction rows) (auto simp add: update_qty_def)

lemma select_stock_update:
  assumes "tbl_stocks s' = update_qty rid q (tbl_stocks s)"
  shows "select_stock s' mid loc =
     map_option (\<lambda>r. if st_id r = rid then r\<lparr>st_qty := Some q\<rparr> else r) (select_stock s mid loc)"
  using assms
  by (simp add: select_stock_def filter_update_qty) (simp add: update_qty_def single_map)

text \<open>
  C3. For a medication with its Box row and its Dispensa row (two rows of the table, so of
  different identifiers), a transfer of a quantity that is NaN, zero or negative leaves
  the state as it is; a transfer of \<open>n > 0\<close> leaves the Box row at its quantity plus
  \<open>n\<close>, whatever the reserve holds, and the Dispensa row at its quantity minus \<open>n\<close>,
  floored at zero; the local stock entry shows the same two numbers.
\<close>

theorem moveFromPantry_transfer:
  assumes "select_stock s (m_id m) Box = Some b"
    and "select_stock s (m_id m) Dispensa = Some pan"
    and "st_id b \<noteq> st_id pan"
  shows "moveFromPantry m NaN s = s \<and>
    (if n \<le> 0 then moveFromPantry m (Num n) s = s
     else select_stock (moveFromPantry m (Num n) s) (m_id m) Box =
            Some (b\<lparr>st_qty := Some (or0 (st_qty b) + n)\<rparr>) \<and>
          select_stock (moveFromPantry m (Num n) s) (m_id m) Dispensa =
            Some (pan\<lparr>st_qty := Some (max 0 (or0 (st_qty pan) - n))\<rparr>) \<and>
          stocks (moveFromPantry m (Num n) s) (m_id m) =
            Some \<lparr>box = or0 (st_qty b) + n, dispensa = max 0 (or0 (st_qty pan) - n)\<rparr>)"
proof (cases "n \<le> 0")
  case True
  then show ?thesis by (auto simp add: moveFromPantry_def)
next
  case False
  define s1 where "s1 = s\<lparr>tbl_stocks := update_qty (st_id b) (or0 (st_qty b) + n) (tbl_stocks s)\<rparr>"
  define s2 where "s2 = moveFromPantry m (Num n) s"
  have t1: "tbl_stocks s1 = update_qty (st_id b) (or0 (st_qty b) + n) (tbl_stocks s)"
    by (simp add: s1_def)
  have t2: "tbl_stocks s2 = update_qty (st_id pan) (max 0 (or0 (st_qty pan) - n)) (tbl_stocks s1)"
    using False assms(1,2) by (simp add: s2_def s1_def moveFromPantry_def Let_def)
  have b1: "select_stock s1 (m_id m) Box = Some (b\<lparr>st_qty := Some (or0 (st_qty b) + n)\<rparr>)"
    by (simp add: select_stock_update [OF t1] assms(1))
  have p1: "select_stock s1 (m_id m) Dispensa = Some pan"
    using assms(3) by (simp add: select_stock_update [OF t1] assms(2))
  have b2: "select_stock s2 (m_id m) Box = Some (b\<lparr>st_qty := Some (or0 (st_qty b) + n)\<rparr>)"
    using assms(3) by (simp add: select_stock_update [OF t2] b1)
  have p2: "select_stock s2 (m_id m) Dispensa =
      Some (pan\<lparr>st_qty := Some (max 0 (or0 (st_qty pan) - n))\<rparr>)"
    by (simp add: select_stock_update [OF t2] p1)
  have l: "stocks s2 (m_id m) =
      Some \<lparr>box = or0 (st_qty b) + n, dispensa = max 0 (or0 (st_qty pan) - n)\<rparr>"
    using False assms(1,2) by (simp add: s2_def moveFromPantry_def Let_def)
  show ?thesis using False b2 p2 l by (simp add: s2_def moveFromPantry_def)
qed

text \<open>Box 1 and Dispensa 3, transfer of 5: Box 6, Dispensa 0.\<close>

theorem moveFromPantry_transfer_witness:
  "select_stock ex_state (m_id ex_medA) Box =
     Some \<lparr>st_id = ''s1'', st_med_id = ''a'', st_location = Box, st_qty = Some 1\<rparr> \<and>
   select_stock ex_state (m_id ex_medA) Dispensa =
     Some \<lparr>st_id = ''s2'', st_med_id = ''a'', st_location = Dispensa, st_qty = Some 3\<rparr> \<and>
   moveFromPantry ex_medA NaN ex_state = ex_state \<and>
   moveFromPantry ex_medA (Num 0) ex_state = ex_state \<and>
   moveFromPantry ex_medA (Num (- 2)) ex_state = ex_state \<and>
   select_stock (moveFromPantry ex_medA (Num 5) ex_state) (m_id ex_medA) Box =
     Some \<lparr>st_id = ''s1'', st_med_id = ''a'', st_location = Box, st_qty = Some 6\<rparr> \<and>
   select_stock (moveFromPantry ex_medA (Num 5) ex_state) (m_id ex_medA) Dispensa =
     Some \<lparr>st_id = ''s2'', st_med_id = ''a'', st_location = Dispensa, st_qty = Some 0\<rparr> \<and>
   stocks (moveFromPantry ex_medA (Num 5) ex_state) (m_id ex_medA) =
     Some \<lparr>box = 6, dispensa = 0\<rparr>"
proof -
  have d: "st_id \<lparr>st_id = ''s1'', st_med_id = ''a'', st_location = Box, st_qty = Some 1\<rparr> \<noteq>
      st_id \<lparr>st_id = ''s2'', st_med_id = ''a'', st_location = Dispensa, st_qty = Some 3\<rparr>"
    by simp
  note t = moveFromPantry_transfer [OF ex_select(1) ex_select(2) d]
  show ?thesis
    using t [of 0] t [of "- 2"] t [of 5] by (simp add: ex_select or0_def)
qed

section \<open>The intake tracker\<close>

lemma toggleTaken_logs:
  "tbl_intake_logs (toggleTaken p day time m (Some True) s) =
     upsert_intake \<lparr>il_family_id = p_family_id p, il_day = day, il_time_slot = time,
                    il_med_id = m_id m, il_taken = True\<rparr> (tbl_intake_logs s)"
  "tbl_intake_logs (toggleTaken p day time m (Some False) s) =
     [r \<leftarrow> tbl_intake_logs s. \<not> intake_matches p day time (m_id m) r]"
  by (simp_all add: toggleTaken_def Let_def split: option.splits)

lemma toggleTaken_box:
  assumes "select_stock s (m_id m) Box = Some b"
  shows "select_stock (toggleTaken p day time m (Some nxt) s) (m_id m) Box =
     Some (b\<lparr>st_qty := Some (max 0 (or0 (st_qty b) + (if nxt then - m_per_dose m else m_per_dose m)))\<rparr>)"
proof -
  define q where "q = max 0 (or0 (st_qty b) + (if nxt then - m_per_dose m else m_per_dose m))"
  have "tbl_stocks (toggleTaken p day time m (Some nxt) s) = update_qty (st_id b) q (tbl_stocks s)"
    using assms by (simp add: toggleTaken_def Let_def select_stock_def q_def)
  from select_stock_update [OF this] show ?thesis using assms by (simp add: q_def)
qed

text \<open>
  C5. Unmarking a dose that has no row in the intake log leaves the log as it is, and
  the Box row of the medication still moves to its quantity plus the pills per dose,
  with zero as the lower bound.
\<close>

theorem untake_without_row:
  assumes "filter (intake_matches p day time (m_id m)) (tbl_intake_logs s) = []"
    and "select_stock s (m_id m) Box = Some b"
  shows "tbl_intake_logs (toggleTaken p day time m (Some False) s) = tbl_intake_logs s \<and>
    select_stock (toggleTaken p day time m (Some False) s) (m_id m) Box =
      Some (b\<lparr>st_qty := Some (max 0 (or0 (st_qty b) + m_per_dose m))\<rparr>)"
  using assms(1) toggleTaken_box [OF assms(2), of p day time False]
  by (simp add: toggleTaken_logs filter_empty_conv)

text \<open>No row for the evening dose; Box 1, one pill per dose: Box 2.\<close>

theorem untake_without_row_witness:
  "filter (intake_matches ex_profile 19732 Sera (m_id ex_medA)) (tbl_intake_logs ex_state) = [] \<and>
   select_stock ex_state (m_id ex_medA) Box =
     Some \<lparr>st_id = ''s1'', st_med_id = ''a'', st_location = Box, st_qty = Some 1\<rparr> \<and>
   m_per_dose ex_medA = 1 \<and>
   tbl_intake_logs (toggleTaken ex_profile 19732 Sera ex_medA (Some False) ex_state) =
     tbl_intake_logs ex_state \<and>
   select_stock (toggleTaken ex_profile 19732 Sera ex_medA (Some False) ex_state) (m_id ex_medA) Box =
     Some \<lparr>st_id = ''s1'', st_med_id = ''a'', st_location = Box, st_qty = Some 2\<rparr>"
proof -
  have h: "filter (intake_matches ex_profile 19732 Sera (m_id ex_medA)) (tbl_intake_logs ex_state) = []"
    by (simp add: intake_matches_def ex_defs)
  have pd: "m_per_dose ex_medA = 1" by (simp add: ex_defs)
  show ?thesis
    using untake_without_row [OF h ex_select(1)] by (simp add: h pd ex_select or0_def)
qed

lemma same_key_matches:
  "same_key \<lparr>il_family_id = p_family_id p, il_day = day, il_time_slot = time,
              il_med_id = mid, il_taken = t\<rparr> = intake_matches p day time mid"
  by (simp add: same_key_def intake_matches_def fun_eq_iff)

lemma upsert_idem:
  assumes "same_key new new"
  shows "upsert_intake new (upsert_intake new rows) = upsert_intake new rows"
proof (cases "filter (same_key new) rows = []")
  case True
  then have "map (\<lambda>r. if same_key new r then new else r) rows = rows"
    by (simp add: filter_empty_conv map_idI)
  with True assms show ?thesis by (simp add: upsert_intake_def)
next
  case False
  then obtain r where r: "r \<in> set rows" "same_key new r"
    by (auto simp add: filter_empty_conv)
  define f where "f = (\<lambda>r. if same_key new r then new else r)"
  have "f r \<in> set (map f rows)" using r(1) by simp
  moreover have "same_key new (f r)" using r(2) assms by (simp add: f_def)
  ultimately have ne: "filter (same_key new) (map f rows) \<noteq> []"
    by (auto simp add: filter_empty_conv)
  have "map f (map f rows) = map f rows" using assms by (simp add: f_def)
  with False ne show ?thesis by (simp add: upsert_intake_def f_def)
qed

lemma upsert_count:
  assumes "same_key new new"
  shows "length (filter (same_key new) (upsert_intake new rows)) =
     (if filter (same_key new) rows = [] then 1 else length (filter (same_key new) rows))"
proof -
  have "length (filter (same_key new) (map (\<lambda>r. if same_key new r then new else r) rows)) =
      length (filter (same_key new) rows)"
    using assms by (induction rows) auto
  then show ?thesis using assms by (simp add: upsert_intake_def)
qed

text \<open>
  C1. With a family set, at most one row in the log for the key, and a Box row for the
  medication: after marking the dose as taken twice in a row the log holds exactly one
  row for the key and the second call has left the log as the first call made it, while
  the Box row has lost the pills per dose twice, each step floored at zero.
\<close>

theorem take_twice:
  assumes "p_family_id p = Some f"
    and "length (filter (intake_matches p day time (m_id m)) (tbl_intake_logs s)) \<le> 1"
    and "select_stock s (m_id m) Box = Some b"
  shows "(let s1 = toggleTaken p day time m (Some True) s;
              s2 = toggleTaken p day time m (Some True) s1
          in length (filter (intake_matches p day time (m_id m)) (tbl_intake_logs s2)) = 1 \<and>
             tbl_intake_logs s2 = tbl_intake_logs s1 \<and>
             select_stock s1 (m_id m) Box =
               Some (b\<lparr>st_qty := Some (max 0 (or0 (st_qty b) - m_per_dose m))\<rparr>) \<and>
             select_stock s2 (m_id m) Box =
               Some (b\<lparr>st_qty := Some (max 0 (max 0 (or0 (st_qty b) - m_per_dose m) - m_per_dose m))\<rparr>))"
proof -
  define new where "new = \<lparr>il_family_id = p_family_id p, il_day = day, il_time_slot = time,
      il_med_id = m_id m, il_taken = True\<rparr>"
  define s1 where "s1 = toggleTaken p day time m (Some True) s"
  define s2 where "s2 = toggleTaken p day time m (Some True) s1"
  have k: "same_key new = intake_matches p day time (m_id m)"
    by (simp add: new_def same_key_matches)
  have nn: "same_key new new"
    using assms(1) by (simp add: new_def same_key_def eq_null_def)
  have l1: "tbl_intake_logs s1 = upsert_intake new (tbl_intake_logs s)"
    by (simp add: s1_def new_def toggleTaken_logs)
  have l2: "tbl_intake_logs s2 = upsert_intake new (tbl_intake_logs s1)"
    by (simp add: s2_def new_def toggleTaken_logs)
  have same: "tbl_intake_logs s2 = tbl_intake_logs s1"
    by (simp add: l1 l2 upsert_idem [OF nn])
  have "length (filter (same_key new) (tbl_intake_logs s1)) = 1"
    using assms(2) unfolding l1 upsert_count [OF nn]
    by (cases "filter (same_key new) (tbl_intake_logs s)") (auto simp add: k)
  then have one: "length (filter (intake_matches p day time (m_id m)) (tbl_intake_logs s2)) = 1"
    by (simp add: same k)
  have b1: "select_stock s1 (m_id m) Box =
      Some (b\<lparr>st_qty := Some (max 0 (or0 (st_qty b) - m_per_dose m))\<rparr>)"
    using toggleTaken_box [OF assms(3), of p day time True] by (simp add: s1_def)
  have b2: "select_stock s2 (m_id m) Box =
      Some (b\<lparr>st_qty := Some (max 0 (max 0 (or0 (st_qty b) - m_per_dose m) - m_per_dose m))\<rparr>)"
    using toggleTaken_box [OF b1, of p day time True] by (simp add: s2_def or0_def)
  show ?thesis
    using one same b1 b2 by (simp add: Let_def s1_def s2_def)
qed


text \<open>Box 1, one pill per dose: 0 after the first call and 0 after the second.\<close>

theorem take_twice_witness:
  "p_family_id ex_profile = Some ''f1'' \<and>
   length (filter (intake_matches ex_profile 19732 Sera (m_id ex_medA)) (tbl_intake_logs ex_state)) \<le> 1 \<and>
   select_stock ex_state (m_id ex_medA) Box =
     Some \<lparr>st_id = ''s1'', st_med_id = ''a'', st_location = Box, st_qty = Some 1\<rparr> \<and>
   m_per_dose ex_medA = 1 \<and>
   length (filter (intake_matches ex_profile 19732 Sera (m_id ex_medA))
     (tbl_intake_logs (toggleTaken ex_profile 19732 Sera ex_medA (Some True)
        (toggleTaken ex_profile 19732 Sera ex_medA (Some True) ex_state)))) = 1 \<and>
   tbl_intake_logs (toggleTaken ex_profile 19732 Sera ex_medA (Some True)
        (toggleTaken ex_profile 19732 Sera ex_medA (Some True) ex_state)) =
     tbl_intake_logs (toggleTaken ex_profile 19732 Sera ex_medA (Some True) ex_state) \<and>
   select_stock (toggleTaken ex_profile 19732 Sera ex_medA (Some True) ex_state) (m_id ex_medA) Box =
     Some \<lparr>st_id = ''s1'', st_med_id = ''a'', st_location = Box, st_qty = Some 0\<rparr> \<and>
   select_stock (toggleTaken ex_profile 19732 Sera ex_medA (Some True)
        (toggleTaken ex_profile 19732 Sera ex_medA (Some True) ex_state)) (m_id ex_medA) Box =
     Some \<lparr>st_id = ''s1'', st_med_id = ''a'', st_location = Box, st_qty = Some 0\<rparr>"
proof -
  have f: "p_family_id ex_profile = Some ''f1''" by (simp add: ex_defs)
  have h: "length (filter (intake_matches ex_profile 19732 Sera (m_id ex_medA)) (tbl_intake_logs ex_state)) \<le> 1"
    by (simp add: intake_matches_def ex_defs)
  have pd: "m_per_dose ex_medA = 1" by (simp add: ex_defs)
  show ?thesis
    using take_twice [OF f h ex_select(1), unfolded Let_def pd] f h pd ex_select(1)
    by (auto simp add: or0_def)
qed

section \<open>Archiving and deleting\<close>

lemma family_of_Some: "family_of p = Some f \<Longrightarrow> p_family_id p = Some f"
  by (auto simp add: family_of_def split: option.splits if_splits)

lemma loadMeds_meds:
  assumes "family_of p = Some f"
  shows "meds (loadMeds p s) =
    sort_key m_name [m \<leftarrow> tbl_meds s. m_family_id m = Some f \<and> m_archived m = False]"
  using assms by (simp add: loadMeds_def Let_def)

lemma loadMeds_listing:
  assumes "family_of p = Some f"
  shows "set (meds (loadMeds p s)) = {r \<in> set (tbl_meds s). m_family_id r = Some f \<and> \<not> m_archived r}"
  by (auto simp add: loadMeds_meds [OF assms])

text \<open>
  C8. With a family set: archiving keeps the medication's row and leaves no row of its
  identifier unarchived, removes exactly the stock rows of the medication, leaves the
  intake log as it is, and the medication is no longer in the listing the component
  holds; hard deletion removes exactly the rows of the medication from the intake log
  (those of the family), from the stock table and from the medication table.
\<close>

theorem archive_and_hardDelete:
  assumes "family_of p = Some f"
  shows "map m_id (tbl_meds (archiveMed p m s)) = map m_id (tbl_meds s) \<and>
    [r \<leftarrow> tbl_meds (archiveMed p m s). m_id r = m_id m \<and> \<not> m_archived r] = [] \<and>
    tbl_stocks (archiveMed p m s) = [r \<leftarrow> tbl_stocks s. st_med_id r \<noteq> m_id m] \<and>
    tbl_intake_logs (archiveMed p m s) = tbl_intake_logs s \<and>
    m_id m \<notin> m_id ` set (meds (archiveMed p m s)) \<and>
    tbl_intake_logs (hardDeleteMed p m s) =
      [r \<leftarrow> tbl_intake_logs s. \<not> (il_med_id r = m_id m \<and> il_family_id r = Some f)] \<and>
    tbl_stocks (hardDeleteMed p m s) = [r \<leftarrow> tbl_stocks s. st_med_id r \<noteq> m_id m] \<and>
    tbl_meds (hardDeleteMed p m s) = [r \<leftarrow> tbl_meds s. m_id r \<noteq> m_id m]"
proof -
  have a1: "map m_id (tbl_meds (archiveMed p m s)) = map m_id (tbl_meds s)"
    by (simp add: archiveMed_def loadMeds_tables o_def if_distrib cong: if_cong)
  have a2: "[r \<leftarrow> tbl_meds (archiveMed p m s). m_id r = m_id m \<and> \<not> m_archived r] = []"
    by (auto simp add: archiveMed_def loadMeds_tables filter_empty_conv)
  have a3: "tbl_stocks (archiveMed p m s) = [r \<leftarrow> tbl_stocks s. st_med_id r \<noteq> m_id m]"
    "tbl_intake_logs (archiveMed p m s) = tbl_intake_logs s"
    by (simp_all add: archiveMed_def loadMeds_tables)
  have a4: "m_id m \<notin> m_id ` set (meds (archiveMed p m s))"
    by (auto simp add: archiveMed_def loadMeds_listing [OF assms])
  have h: "tbl_intake_logs (hardDeleteMed p m s) =
      [r \<leftarrow> tbl_intake_logs s. \<not> (il_med_id r = m_id m \<and> il_family_id r = Some f)]"
    "tbl_stocks (hardDeleteMed p m s) = [r \<leftarrow> tbl_stocks s. st_med_id r \<noteq> m_id m]"
    "tbl_meds (hardDeleteMed p m s) = [r \<leftarrow> tbl_meds s. m_id r \<noteq> m_id m]"
    by (simp_all add: hardDeleteMed_def loadMeds_tables family_of_Some [OF assms] eq_null_def)
  show ?thesis using a1 a2 a3 a4 h by simp
qed







text \<open>Archiving and deleting the first medication of the example.\<close>

theorem archive_and_hardDelete_witness:
  "family_of ex_profile = Some ''f1'' \<and>
   tbl_meds (archiveMed ex_profile ex_medA ex_state) = [ex_medA\<lparr>m_archived := True\<rparr>, ex_medB] \<and>
   tbl_stocks (archiveMed ex_profile ex_medA ex_state) =
     [\<lparr>st_id = ''s3'', st_med_id = ''b'', st_location = Box, st_qty = Some 20\<rparr>,
      \<lparr>st_id = ''s4'', st_med_id = ''b'', st_location = Dispensa, st_qty = None\<rparr>] \<and>
   tbl_intake_logs (archiveMed ex_profile ex_medA ex_state) = tbl_intake_logs ex_state \<and>
   m_id ex_medA \<notin> m_id ` set (meds (archiveMed ex_profile ex_medA ex_state)) \<and>
   meds (archiveMed ex_profile ex_medA ex_state) = [ex_medB] \<and>
   tbl_intake_logs (hardDeleteMed ex_profile ex_medA ex_state) = [] \<and>
   tbl_stocks (hardDeleteMed ex_profile ex_medA ex_state) =
     [\<lparr>st_id = ''s3'', st_med_id = ''b'', st_location = Box, st_qty = Some 20\<rparr>,
      \<lparr>st_id = ''s4'', st_med_id = ''b'', st_location = Dispensa, st_qty = None\<rparr>] \<and>
   tbl_meds (hardDeleteMed ex_profile ex_medA ex_state) = [ex_medB]"
proof -
  have f: "family_of ex_profile = Some ''f1''"
    by (simp add: family_of_def ex_defs)
  note t = archive_and_hardDelete [OF f, of ex_medA ex_state]
  have m1: "tbl_meds (archiveMed ex_profile ex_medA ex_state) = [ex_medA\<lparr>m_archived := True\<rparr>, ex_medB]"
    by (simp add: archiveMed_def loadMeds_tables ex_defs)
  have m2: "meds (archiveMed ex_profile ex_medA ex_state) = [ex_medB]"
    by (simp add: archiveMed_def loadMeds_def family_of_def Let_def ex_defs)
  have e: "tbl_intake_logs ex_state =
      [\<lparr>il_family_id = Some ''f1'', il_day = 19732, il_time_slot = Mattina,
        il_med_id = ''a'', il_taken = True\<rparr>]"
    "tbl_stocks ex_state =
        [\<lparr>st_id = ''s1'', st_med_id = ''a'', st_location = Box, st_qty = Some 1\<rparr>,
         \<lparr>st_id = ''s2'', st_med_id = ''a'', st_location = Dispensa, st_qty = Some 3\<rparr>,
         \<lparr>st_id = ''s3'', st_med_id = ''b'', st_location = Box, st_qty = Some 20\<rparr>,
         \<lparr>st_id = ''s4'', st_med_id = ''b'', st_location = Dispensa, st_qty = None\<rparr>]"
    "tbl_meds ex_state = [ex_medA, ex_medB]"
    "m_id ex_medA = ''a''" "m_id ex_medB = ''b''"
    by (simp_all add: ex_defs)
  show ?thesis
    using t f m1 m2 by (simp add: e)
qed

section \<open>Stock quantities are not negative\<close>

text \<open>
  Every handler that rewrites a quantity keeps the invariant: the toggle floors at zero,
  the transfers add a positive amount or floor at zero, and the absolute corrections
  refuse a negative number. Creation keeps it when the initial quantities it is given
  are not negative.
\<close>

lemma update_qty_nonneg:
  "0 \<le> q \<Longrightarrow> list_all (\<lambda>r. 0 \<le> or0 (st_qty r)) rows \<Longrightarrow>
   list_all (\<lambda>r. 0 \<le> or0 (st_qty r)) (update_qty rid q rows)"
  by (induction rows) (auto simp add: update_qty_def or0_def)

lemma select_stock_mem: "select_stock s mid loc = Some b \<Longrightarrow> b \<in> set (tbl_stocks s)"
proof -
  assume "select_stock s mid loc = Some b"
  then have "[r \<leftarrow> tbl_stocks s. st_med_id r = mid \<and> st_location r = loc] = [b]"
    by (auto simp add: select_stock_def single_def split: list.splits)
  then have "b \<in> set [r \<leftarrow> tbl_stocks s. st_med_id r = mid \<and> st_location r = loc]"
    by simp
  then show ?thesis by simp
qed

lemma select_stock_nonneg:
  "stocks_nonneg s \<Longrightarrow> select_stock s mid loc = Some b \<Longrightarrow> 0 \<le> or0 (st_qty b)"
  using select_stock_mem [of s mid loc b] by (auto simp add: stocks_nonneg_def list_all_iff)

lemma toggleTaken_nonneg: "stocks_nonneg s \<Longrightarrow> stocks_nonneg (toggleTaken p day time m force s)"
  by (auto simp add: stocks_nonneg_def toggleTaken_def Let_def select_stock_def
      intro!: update_qty_nonneg split: option.splits)

lemma moveFromPantry_nonneg: "stocks_nonneg s \<Longrightarrow> stocks_nonneg (moveFromPantry m qty s)"
  using select_stock_nonneg [of s "m_id m" Box]
  by (auto simp add: moveFromPantry_def Let_def stocks_nonneg_def
      intro!: update_qty_nonneg split: number.splits option.splits)

lemma addPantry_nonneg: "stocks_nonneg s \<Longrightarrow> stocks_nonneg (addPantry m qty s)"
  using select_stock_nonneg [of s "m_id m" Dispensa]
  by (auto simp add: addPantry_def Let_def stocks_nonneg_def
      intro!: update_qty_nonneg split: number.splits option.splits)

lemma setQty_nonneg:
  "stocks_nonneg s \<Longrightarrow> stocks_nonneg (setBoxQty m qty s)"
  "stocks_nonneg s \<Longrightarrow> stocks_nonneg (setPantryQty m qty s)"
  by (auto simp add: setBoxQty_def setPantryQty_def stocks_nonneg_def
      intro!: update_qty_nonneg split: number.splits option.splits)

lemma catalog_nonneg:
  "stocks_nonneg s \<Longrightarrow> stocks_nonneg (saveMed p s)"
  "stocks_nonneg s \<Longrightarrow> stocks_nonneg (archiveMed p m s)"
  "stocks_nonneg s \<Longrightarrow> stocks_nonneg (hardDeleteMed p m s)"
  by (auto simp add: stocks_nonneg_def saveMed_def archiveMed_def hardDeleteMed_def
      loadMeds_tables list_all_iff split: option.splits)

lemma addMed_nonneg:
  assumes "stocks_nonneg s" "0 \<le> num_or0 (n_initBox (newMed s))" "0 \<le> num_or0 (n_initDisp (newMed s))"
    and "addMed p i j k s = Inr s'"
  shows "stocks_nonneg s'"
  using assms
  by (auto simp add: stocks_nonneg_def addMed_def Let_def loadMeds_tables or0_def split: if_splits)

text \<open>
  C9. Every write of a stock quantity is claimed to keep it at zero or more. Creating a
  medication with \<open>-5\<close> typed as the initial Box quantity stores \<open>-5\<close>:
  \<open>newMed.initBox || 0\<close> turns only NaN and 0 into 0, and nothing else guards the value.
\<close>

theorem addMed_stores_negative:
  "stocks_nonneg ex_adding \<and>
   n_initBox (newMed ex_adding) = Num (- 5) \<and>
   (case addMed ex_profile ''c'' ''s5'' ''s6'' ex_adding of
      Inl e \<Rightarrow> None
    | Inr s' \<Rightarrow> select_stock s' ''c'' Box) =
     Some \<lparr>st_id = ''s5'', st_med_id = ''c'', st_location = Box, st_qty = Some (- 5)\<rparr> \<and>
   (case addMed ex_profile ''c'' ''s5'' ''s6'' ex_adding of
      Inl e \<Rightarrow> False
    | Inr s' \<Rightarrow> \<not> stocks_nonneg s')"
  by (simp add: stocks_nonneg_def addMed_def loadMeds_tables select_stock_def single_def
      num_or0_def or0_def Let_def ex_adding_def ex_defs)

section \<open>The bulk operation\<close>

lemma sched_step_one:
  "sched_step p day next ([(j, ph)], s) 0 =
     ([(j, fst (phase_step p day next (fst j) (snd j) ph s))],
      snd (phase_step p day next (fst j) (snd j) ph s))"
  by (simp add: sched_step_def task_step_def case_prod_beta)

text \<open>One toggle run alone, its four steps in a row, is \<open>toggleTaken\<close> with \<open>force\<close> given.\<close>

lemma toggle_alone:
  "run_schedule p day next [0, 0, 0, 0] ([((m, time), WriteLog)], toggle_begin day next s (m, time)) =
     ([((m, time), Settled)], toggleTaken p day time m (Some next) s)"
  by (cases "select_stock s (m_id m) Box")
    (simp_all add: run_schedule_def sched_step_one toggle_begin_def toggleTaken_def Let_def
      select_stock_def)



























lemma phase_step_stocks:
  "tbl_stocks (snd (phase_step p day next m time ph s)) =
     (case ph of UpdateBox rid q \<Rightarrow> update_qty rid q (tbl_stocks s) | _ \<Rightarrow> tbl_stocks s)"
  by (cases ph) (simp_all split: option.splits)






























text \<open>
  Two toggles of one medication, both past their log write: when both read the Box row
  before either updates it, one decrement is lost; when the first updates before the
  second reads, the row loses two doses. The Box quantity of a medication with more
  than one issued toggle depends on the schedule.
\<close>

lemma two_toggles_of_one_medication:
  assumes "select_stock s (m_id m) Box = Some b"
  shows "select_stock
       (snd (run_schedule p day True [0, 1, 0, 1]
          ([((m, t1), SelectBox), ((m, t2), SelectBox)], s))) (m_id m) Box =
     Some (b\<lparr>st_qty := Some (max 0 (or0 (st_qty b) - m_per_dose m))\<rparr>)"
    and "select_stock
       (snd (run_schedule p day True [0, 0, 1, 1]
          ([((m, t1), SelectBox), ((m, t2), SelectBox)], s))) (m_id m) Box =
     Some (b\<lparr>st_qty := Some (max 0 (max 0 (or0 (st_qty b) - m_per_dose m) - m_per_dose m))\<rparr>)"
proof -
  define q where "q = max 0 (or0 (st_qty b) - m_per_dose m)"
  define s1 where "s1 = s\<lparr>tbl_stocks := update_qty (st_id b) q (tbl_stocks s)\<rparr>"
  have b1: "select_stock s1 (m_id m) Box = Some (b\<lparr>st_qty := Some q\<rparr>)"
    using select_stock_update [of s1 "st_id b" q s "m_id m" Box] assms by (simp add: s1_def)
  have r1: "run_schedule p day True [0, 1]
      ([((m, t1), SelectBox), ((m, t2), SelectBox)], s) =
      ([((m, t1), UpdateBox (st_id b) q), ((m, t2), UpdateBox (st_id b) q)], s)"
    using assms by (simp add: run_schedule_def sched_step_def task_step_def q_def)
  have r2: "run_schedule p day True [0, 1]
      ([((m, t1), UpdateBox (st_id b) q), ((m, t2), UpdateBox (st_id b) q)], s) =
      ([((m, t1), SetStocks q), ((m, t2), SetStocks q)],
       s1\<lparr>tbl_stocks := update_qty (st_id b) q (tbl_stocks s1)\<rparr>)"
    by (simp add: run_schedule_def sched_step_def task_step_def s1_def)
  have "run_schedule p day True [0, 1, 0, 1] cfg =
      run_schedule p day True [0, 1] (run_schedule p day True [0, 1] cfg)" for cfg
    by (simp add: run_schedule_def)
  then have "snd (run_schedule p day True [0, 1, 0, 1]
      ([((m, t1), SelectBox), ((m, t2), SelectBox)], s)) =
      s1\<lparr>tbl_stocks := update_qty (st_id b) q (tbl_stocks s1)\<rparr>"
    by (simp only: r1 r2 snd_conv)
  moreover have "select_stock (s1\<lparr>tbl_stocks := update_qty (st_id b) q (tbl_stocks s1)\<rparr>)
      (m_id m) Box = Some (b\<lparr>st_qty := Some q\<rparr>)"
    using select_stock_update [of "s1\<lparr>tbl_stocks := update_qty (st_id b) q (tbl_stocks s1)\<rparr>"
        "st_id b" q s1 "m_id m" Box] b1
    by simp
  ultimately show "select_stock
       (snd (run_schedule p day True [0, 1, 0, 1]
          ([((m, t1), SelectBox), ((m, t2), SelectBox)], s))) (m_id m) Box =
     Some (b\<lparr>st_qty := Some (max 0 (or0 (st_qty b) - m_per_dose m))\<rparr>)"
    by (simp add: q_def)
  define q2 where "q2 = max 0 (q - m_per_dose m)"
  define s2 where "s2 = s1\<lparr>tbl_stocks := update_qty (st_id b) q2 (tbl_stocks s1)\<rparr>"
  have t1: "run_schedule p day True [0, 0]
      ([((m, t1), SelectBox), ((m, t2), SelectBox)], s) =
      ([((m, t1), SetStocks q), ((m, t2), SelectBox)], s1)"
    using assms by (simp add: run_schedule_def sched_step_def task_step_def q_def s1_def)
  have t2: "run_schedule p day True [1, 1]
      ([((m, t1), SetStocks q), ((m, t2), SelectBox)], s1) =
      ([((m, t1), SetStocks q), ((m, t2), SetStocks q2)], s2)"
    using b1 by (simp add: run_schedule_def sched_step_def task_step_def q2_def s2_def or0_def)
  have "run_schedule p day True [0, 0, 1, 1] cfg =
      run_schedule p day True [1, 1] (run_schedule p day True [0, 0] cfg)" for cfg
    by (simp add: run_schedule_def)
  then have "snd (run_schedule p day True [0, 0, 1, 1]
      ([((m, t1), SelectBox), ((m, t2), SelectBox)], s)) = s2"
    by (simp only: t1 t2 snd_conv)
  moreover have "select_stock s2 (m_id m) Box = Some (b\<lparr>st_qty := Some q2\<rparr>)"
    using select_stock_update [of s2 "st_id b" q2 s1 "m_id m" Box] b1 by (simp add: s2_def)
  ultimately show "select_stock
       (snd (run_schedule p day True [0, 0, 1, 1]
          ([((m, t1), SelectBox), ((m, t2), SelectBox)], s))) (m_id m) Box =
     Some (b\<lparr>st_qty := Some (max 0 (max 0 (or0 (st_qty b) - m_per_dose m) - m_per_dose m))\<rparr>)"
    by (simp add: q2_def q_def)
qed



end
